theory Spec2Isabelle
  imports
    Main
    "HOL-Library.List_Lexorder"
    "HOL-Library.Product_Lexorder"
    "HOL-Library.Multiset"
begin

section \<open>Python strings\<close>

text \<open>
  A Python \<open>str\<close> is a sequence of Unicode code points. It is modelled as a list of
  integers, one for each code point; \<open>str\<close> turns an ASCII literal into such a list. The
  library functions that the program calls are written out below as CPython 3.11 defines
  them on every code point. Where they read the Unicode character database, the tables
  are those of Unicode 14.0, the version of CPython 3.11, as lists of ranges of code
  points.
\<close>

type_synonym ustr = "int list"

definition str :: "string \<Rightarrow> ustr" where
  "str s = map of_char s"

definition in_ranges :: "int \<Rightarrow> (int \<times> int) list \<Rightarrow> bool" where
  "in_ranges c rs = list_ex (\<lambda>(lo, hi). lo \<le> c \<and> c \<le> hi) rs"

definition space_ranges :: "(int \<times> int) list" where
  \<comment> \<open>the white space of \<open>str.isspace()\<close> and \<open>str.strip()\<close>\<close>
  "space_ranges = [
     (9, 13), (28, 32), (133, 133), (160, 160), (5760, 5760), (8192, 8202),
     (8232, 8233), (8239, 8239), (8287, 8287), (12288, 12288)]"

definition digit_ranges :: "(int \<times> int) list" where
  \<comment> \<open>the characters of \<open>str.isdigit()\<close>: the numeric types Decimal and Digit\<close>
  "digit_ranges = [
     (48, 57), (178, 179), (185, 185), (1632, 1641), (1776, 1785), (1984, 1993),
     (2406, 2415), (2534, 2543), (2662, 2671), (2790, 2799), (2918, 2927), (3046, 3055),
     (3174, 3183), (3302, 3311), (3430, 3439), (3558, 3567), (3664, 3673), (3792, 3801),
     (3872, 3881), (4160, 4169), (4240, 4249), (4969, 4977), (6112, 6121), (6160, 6169),
     (6470, 6479), (6608, 6618), (6784, 6793), (6800, 6809), (6992, 7001), (7088, 7097),
     (7232, 7241), (7248, 7257), (8304, 8304), (8308, 8313), (8320, 8329), (9312, 9320),
     (9332, 9340), (9352, 9360), (9450, 9450), (9461, 9469), (9471, 9471), (10102, 10110),
     (10112, 10120), (10122, 10130), (42528, 42537), (43216, 43225), (43264, 43273), (43472, 43481),
     (43504, 43513), (43600, 43609), (44016, 44025), (65296, 65305), (66720, 66729), (68160, 68163),
     (68912, 68921), (69216, 69224), (69714, 69722), (69734, 69743), (69872, 69881), (69942, 69951),
     (70096, 70105), (70384, 70393), (70736, 70745), (70864, 70873), (71248, 71257), (71360, 71369),
     (71472, 71481), (71904, 71913), (72016, 72025), (72784, 72793), (73040, 73049), (73120, 73129),
     (92768, 92777), (92864, 92873), (93008, 93017), (120782, 120831), (123200, 123209), (123632, 123641),
     (125264, 125273), (127232, 127242), (130032, 130041)]"

definition decimal_ranges :: "(int \<times> int) list" where
  \<comment> \<open>the decimal digits (category Nd), which \<open>int()\<close> reads; every range starts at
      a digit zero and runs through whole decades\<close>
  "decimal_ranges = [
     (48, 57), (1632, 1641), (1776, 1785), (1984, 1993), (2406, 2415), (2534, 2543),
     (2662, 2671), (2790, 2799), (2918, 2927), (3046, 3055), (3174, 3183), (3302, 3311),
     (3430, 3439), (3558, 3567), (3664, 3673), (3792, 3801), (3872, 3881), (4160, 4169),
     (4240, 4249), (6112, 6121), (6160, 6169), (6470, 6479), (6608, 6617), (6784, 6793),
     (6800, 6809), (6992, 7001), (7088, 7097), (7232, 7241), (7248, 7257), (42528, 42537),
     (43216, 43225), (43264, 43273), (43472, 43481), (43504, 43513), (43600, 43609), (44016, 44025),
     (65296, 65305), (66720, 66729), (68912, 68921), (69734, 69743), (69872, 69881), (69942, 69951),
     (70096, 70105), (70384, 70393), (70736, 70745), (70864, 70873), (71248, 71257), (71360, 71369),
     (71472, 71481), (71904, 71913), (72016, 72025), (72784, 72793), (73040, 73049), (73120, 73129),
     (92768, 92777), (92864, 92873), (93008, 93017), (120782, 120831), (123200, 123209), (123632, 123641),
     (125264, 125273), (130032, 130041)]"

definition lower_runs :: "(int \<times> int \<times> int \<times> int) list" where
  \<comment> \<open>the lower-case mapping: \<open>(lo, hi, step, delta)\<close> maps every \<open>step\<close>-th code point
      from \<open>lo\<close> to \<open>hi\<close> to the code point \<open>delta\<close> above it\<close>
  "lower_runs = [
     (65, 90, 1, 32), (192, 214, 1, 32), (216, 222, 1, 32), (256, 302, 2, 1),
     (306, 310, 2, 1), (313, 327, 2, 1), (330, 374, 2, 1), (376, 376, 1, - 121),
     (377, 381, 2, 1), (385, 385, 1, 210), (386, 388, 2, 1), (390, 390, 1, 206),
     (391, 391, 1, 1), (393, 394, 1, 205), (395, 395, 1, 1), (398, 398, 1, 79),
     (399, 399, 1, 202), (400, 400, 1, 203), (401, 401, 1, 1), (403, 403, 1, 205),
     (404, 404, 1, 207), (406, 406, 1, 211), (407, 407, 1, 209), (408, 408, 1, 1),
     (412, 412, 1, 211), (413, 413, 1, 213), (415, 415, 1, 214), (416, 420, 2, 1),
     (422, 422, 1, 218), (423, 423, 1, 1), (425, 425, 1, 218), (428, 428, 1, 1),
     (430, 430, 1, 218), (431, 431, 1, 1), (433, 434, 1, 217), (435, 437, 2, 1),
     (439, 439, 1, 219), (440, 440, 1, 1), (444, 444, 1, 1), (452, 452, 1, 2),
     (453, 453, 1, 1), (455, 455, 1, 2), (456, 456, 1, 1), (458, 458, 1, 2),
     (459, 475, 2, 1), (478, 494, 2, 1), (497, 497, 1, 2), (498, 500, 2, 1),
     (502, 502, 1, - 97), (503, 503, 1, - 56), (504, 542, 2, 1), (544, 544, 1, - 130),
     (546, 562, 2, 1), (570, 570, 1, 10795), (571, 571, 1, 1), (573, 573, 1, - 163),
     (574, 574, 1, 10792), (577, 577, 1, 1), (579, 579, 1, - 195), (580, 580, 1, 69),
     (581, 581, 1, 71), (582, 590, 2, 1), (880, 882, 2, 1), (886, 886, 1, 1),
     (895, 895, 1, 116), (902, 902, 1, 38), (904, 906, 1, 37), (908, 908, 1, 64),
     (910, 911, 1, 63), (913, 929, 1, 32), (931, 939, 1, 32), (975, 975, 1, 8),
     (984, 1006, 2, 1), (1012, 1012, 1, - 60), (1015, 1015, 1, 1), (1017, 1017, 1, - 7),
     (1018, 1018, 1, 1), (1021, 1023, 1, - 130), (1024, 1039, 1, 80), (1040, 1071, 1, 32),
     (1120, 1152, 2, 1), (1162, 1214, 2, 1), (1216, 1216, 1, 15), (1217, 1229, 2, 1),
     (1232, 1326, 2, 1), (1329, 1366, 1, 48), (4256, 4293, 1, 7264), (4295, 4295, 1, 7264),
     (4301, 4301, 1, 7264), (5024, 5103, 1, 38864), (5104, 5109, 1, 8), (7312, 7354, 1, - 3008),
     (7357, 7359, 1, - 3008), (7680, 7828, 2, 1), (7838, 7838, 1, - 7615), (7840, 7934, 2, 1),
     (7944, 7951, 1, - 8), (7960, 7965, 1, - 8), (7976, 7983, 1, - 8), (7992, 7999, 1, - 8),
     (8008, 8013, 1, - 8), (8025, 8031, 2, - 8), (8040, 8047, 1, - 8), (8072, 8079, 1, - 8),
     (8088, 8095, 1, - 8), (8104, 8111, 1, - 8), (8120, 8121, 1, - 8), (8122, 8123, 1, - 74),
     (8124, 8124, 1, - 9), (8136, 8139, 1, - 86), (8140, 8140, 1, - 9), (8152, 8153, 1, - 8),
     (8154, 8155, 1, - 100), (8168, 8169, 1, - 8), (8170, 8171, 1, - 112), (8172, 8172, 1, - 7),
     (8184, 8185, 1, - 128), (8186, 8187, 1, - 126), (8188, 8188, 1, - 9), (8486, 8486, 1, - 7517),
     (8490, 8490, 1, - 8383), (8491, 8491, 1, - 8262), (8498, 8498, 1, 28), (8544, 8559, 1, 16),
     (8579, 8579, 1, 1), (9398, 9423, 1, 26), (11264, 11311, 1, 48), (11360, 11360, 1, 1),
     (11362, 11362, 1, - 10743), (11363, 11363, 1, - 3814), (11364, 11364, 1, - 10727), (11367, 11371, 2, 1),
     (11373, 11373, 1, - 10780), (11374, 11374, 1, - 10749), (11375, 11375, 1, - 10783), (11376, 11376, 1, - 10782),
     (11378, 11378, 1, 1), (11381, 11381, 1, 1), (11390, 11391, 1, - 10815), (11392, 11490, 2, 1),
     (11499, 11501, 2, 1), (11506, 11506, 1, 1), (42560, 42604, 2, 1), (42624, 42650, 2, 1),
     (42786, 42798, 2, 1), (42802, 42862, 2, 1), (42873, 42875, 2, 1), (42877, 42877, 1, - 35332),
     (42878, 42886, 2, 1), (42891, 42891, 1, 1), (42893, 42893, 1, - 42280), (42896, 42898, 2, 1),
     (42902, 42920, 2, 1), (42922, 42922, 1, - 42308), (42923, 42923, 1, - 42319), (42924, 42924, 1, - 42315),
     (42925, 42925, 1, - 42305), (42926, 42926, 1, - 42308), (42928, 42928, 1, - 42258), (42929, 42929, 1, - 42282),
     (42930, 42930, 1, - 42261), (42931, 42931, 1, 928), (42932, 42946, 2, 1), (42948, 42948, 1, - 48),
     (42949, 42949, 1, - 42307), (42950, 42950, 1, - 35384), (42951, 42953, 2, 1), (42960, 42960, 1, 1),
     (42966, 42968, 2, 1), (42997, 42997, 1, 1), (65313, 65338, 1, 32), (66560, 66599, 1, 40),
     (66736, 66771, 1, 40), (66928, 66964, 2, 39), (66929, 66937, 2, 39), (66941, 66953, 2, 39),
     (66957, 66961, 2, 39), (66965, 66965, 1, 39), (68736, 68786, 1, 64), (71840, 71871, 1, 32),
     (93760, 93791, 1, 32), (125184, 125217, 1, 34)]"

definition cased_ranges :: "(int \<times> int) list" where
  \<comment> \<open>the cased code points among those that are not case-ignorable; the program
      asks for the property of no other code point\<close>
  "cased_ranges = [
     (65, 90), (97, 122), (170, 170), (181, 181), (186, 186), (192, 214),
     (216, 246), (248, 442), (444, 447), (452, 659), (661, 687), (880, 883),
     (886, 887), (891, 893), (895, 895), (902, 902), (904, 906), (908, 908),
     (910, 929), (931, 1013), (1015, 1153), (1162, 1327), (1329, 1366), (1376, 1416),
     (4256, 4293), (4295, 4295), (4301, 4301), (4304, 4346), (4349, 4351), (5024, 5109),
     (5112, 5117), (7296, 7304), (7312, 7354), (7357, 7359), (7424, 7467), (7531, 7543),
     (7545, 7578), (7680, 7957), (7960, 7965), (7968, 8005), (8008, 8013), (8016, 8023),
     (8025, 8025), (8027, 8027), (8029, 8029), (8031, 8061), (8064, 8116), (8118, 8124),
     (8126, 8126), (8130, 8132), (8134, 8140), (8144, 8147), (8150, 8155), (8160, 8172),
     (8178, 8180), (8182, 8188), (8450, 8450), (8455, 8455), (8458, 8467), (8469, 8469),
     (8473, 8477), (8484, 8484), (8486, 8486), (8488, 8488), (8490, 8493), (8495, 8500),
     (8505, 8505), (8508, 8511), (8517, 8521), (8526, 8526), (8544, 8575), (8579, 8580),
     (9398, 9449), (11264, 11387), (11390, 11492), (11499, 11502), (11506, 11507), (11520, 11557),
     (11559, 11559), (11565, 11565), (42560, 42605), (42624, 42651), (42786, 42863), (42865, 42887),
     (42891, 42894), (42896, 42954), (42960, 42961), (42963, 42963), (42965, 42969), (42997, 42998),
     (43002, 43002), (43824, 43866), (43872, 43880), (43888, 43967), (64256, 64262), (64275, 64279),
     (65313, 65338), (65345, 65370), (66560, 66639), (66736, 66771), (66776, 66811), (66928, 66938),
     (66940, 66954), (66956, 66962), (66964, 66965), (66967, 66977), (66979, 66993), (66995, 67001),
     (67003, 67004), (68736, 68786), (68800, 68850), (71840, 71903), (93760, 93823), (119808, 119892),
     (119894, 119964), (119966, 119967), (119970, 119970), (119973, 119974), (119977, 119980), (119982, 119993),
     (119995, 119995), (119997, 120003), (120005, 120069), (120071, 120074), (120077, 120084), (120086, 120092),
     (120094, 120121), (120123, 120126), (120128, 120132), (120134, 120134), (120138, 120144), (120146, 120485),
     (120488, 120512), (120514, 120538), (120540, 120570), (120572, 120596), (120598, 120628), (120630, 120654),
     (120656, 120686), (120688, 120712), (120714, 120744), (120746, 120770), (120772, 120779), (122624, 122633),
     (122635, 122654), (125184, 125251), (127280, 127305), (127312, 127337), (127344, 127369)]"

definition case_ignorable_ranges :: "(int \<times> int) list" where
  "case_ignorable_ranges = [
     (39, 39), (46, 46), (58, 58), (94, 94), (96, 96), (168, 168),
     (173, 173), (175, 175), (180, 180), (183, 184), (688, 879), (884, 885),
     (890, 890), (900, 901), (903, 903), (1155, 1161), (1369, 1369), (1375, 1375),
     (1425, 1469), (1471, 1471), (1473, 1474), (1476, 1477), (1479, 1479), (1524, 1524),
     (1536, 1541), (1552, 1562), (1564, 1564), (1600, 1600), (1611, 1631), (1648, 1648),
     (1750, 1757), (1759, 1768), (1770, 1773), (1807, 1807), (1809, 1809), (1840, 1866),
     (1958, 1968), (2027, 2037), (2042, 2042), (2045, 2045), (2070, 2093), (2137, 2139),
     (2184, 2184), (2192, 2193), (2200, 2207), (2249, 2306), (2362, 2362), (2364, 2364),
     (2369, 2376), (2381, 2381), (2385, 2391), (2402, 2403), (2417, 2417), (2433, 2433),
     (2492, 2492), (2497, 2500), (2509, 2509), (2530, 2531), (2558, 2558), (2561, 2562),
     (2620, 2620), (2625, 2626), (2631, 2632), (2635, 2637), (2641, 2641), (2672, 2673),
     (2677, 2677), (2689, 2690), (2748, 2748), (2753, 2757), (2759, 2760), (2765, 2765),
     (2786, 2787), (2810, 2815), (2817, 2817), (2876, 2876), (2879, 2879), (2881, 2884),
     (2893, 2893), (2901, 2902), (2914, 2915), (2946, 2946), (3008, 3008), (3021, 3021),
     (3072, 3072), (3076, 3076), (3132, 3132), (3134, 3136), (3142, 3144), (3146, 3149),
     (3157, 3158), (3170, 3171), (3201, 3201), (3260, 3260), (3263, 3263), (3270, 3270),
     (3276, 3277), (3298, 3299), (3328, 3329), (3387, 3388), (3393, 3396), (3405, 3405),
     (3426, 3427), (3457, 3457), (3530, 3530), (3538, 3540), (3542, 3542), (3633, 3633),
     (3636, 3642), (3654, 3662), (3761, 3761), (3764, 3772), (3782, 3782), (3784, 3789),
     (3864, 3865), (3893, 3893), (3895, 3895), (3897, 3897), (3953, 3966), (3968, 3972),
     (3974, 3975), (3981, 3991), (3993, 4028), (4038, 4038), (4141, 4144), (4146, 4151),
     (4153, 4154), (4157, 4158), (4184, 4185), (4190, 4192), (4209, 4212), (4226, 4226),
     (4229, 4230), (4237, 4237), (4253, 4253), (4348, 4348), (4957, 4959), (5906, 5908),
     (5938, 5939), (5970, 5971), (6002, 6003), (6068, 6069), (6071, 6077), (6086, 6086),
     (6089, 6099), (6103, 6103), (6109, 6109), (6155, 6159), (6211, 6211), (6277, 6278),
     (6313, 6313), (6432, 6434), (6439, 6440), (6450, 6450), (6457, 6459), (6679, 6680),
     (6683, 6683), (6742, 6742), (6744, 6750), (6752, 6752), (6754, 6754), (6757, 6764),
     (6771, 6780), (6783, 6783), (6823, 6823), (6832, 6862), (6912, 6915), (6964, 6964),
     (6966, 6970), (6972, 6972), (6978, 6978), (7019, 7027), (7040, 7041), (7074, 7077),
     (7080, 7081), (7083, 7085), (7142, 7142), (7144, 7145), (7149, 7149), (7151, 7153),
     (7212, 7219), (7222, 7223), (7288, 7293), (7376, 7378), (7380, 7392), (7394, 7400),
     (7405, 7405), (7412, 7412), (7416, 7417), (7468, 7530), (7544, 7544), (7579, 7679),
     (8125, 8125), (8127, 8129), (8141, 8143), (8157, 8159), (8173, 8175), (8189, 8190),
     (8203, 8207), (8216, 8217), (8228, 8228), (8231, 8231), (8234, 8238), (8288, 8292),
     (8294, 8303), (8305, 8305), (8319, 8319), (8336, 8348), (8400, 8432), (11388, 11389),
     (11503, 11505), (11631, 11631), (11647, 11647), (11744, 11775), (11823, 11823), (12293, 12293),
     (12330, 12333), (12337, 12341), (12347, 12347), (12441, 12446), (12540, 12542), (40981, 40981),
     (42232, 42237), (42508, 42508), (42607, 42610), (42612, 42621), (42623, 42623), (42652, 42655),
     (42736, 42737), (42752, 42785), (42864, 42864), (42888, 42890), (42994, 42996), (43000, 43001),
     (43010, 43010), (43014, 43014), (43019, 43019), (43045, 43046), (43052, 43052), (43204, 43205),
     (43232, 43249), (43263, 43263), (43302, 43309), (43335, 43345), (43392, 43394), (43443, 43443),
     (43446, 43449), (43452, 43453), (43471, 43471), (43493, 43494), (43561, 43566), (43569, 43570),
     (43573, 43574), (43587, 43587), (43596, 43596), (43632, 43632), (43644, 43644), (43696, 43696),
     (43698, 43700), (43703, 43704), (43710, 43711), (43713, 43713), (43741, 43741), (43756, 43757),
     (43763, 43764), (43766, 43766), (43867, 43871), (43881, 43883), (44005, 44005), (44008, 44008),
     (44013, 44013), (64286, 64286), (64434, 64450), (65024, 65039), (65043, 65043), (65056, 65071),
     (65106, 65106), (65109, 65109), (65279, 65279), (65287, 65287), (65294, 65294), (65306, 65306),
     (65342, 65342), (65344, 65344), (65392, 65392), (65438, 65439), (65507, 65507), (65529, 65531),
     (66045, 66045), (66272, 66272), (66422, 66426), (67456, 67461), (67463, 67504), (67506, 67514),
     (68097, 68099), (68101, 68102), (68108, 68111), (68152, 68154), (68159, 68159), (68325, 68326),
     (68900, 68903), (69291, 69292), (69446, 69456), (69506, 69509), (69633, 69633), (69688, 69702),
     (69744, 69744), (69747, 69748), (69759, 69761), (69811, 69814), (69817, 69818), (69821, 69821),
     (69826, 69826), (69837, 69837), (69888, 69890), (69927, 69931), (69933, 69940), (70003, 70003),
     (70016, 70017), (70070, 70078), (70089, 70092), (70095, 70095), (70191, 70193), (70196, 70196),
     (70198, 70199), (70206, 70206), (70367, 70367), (70371, 70378), (70400, 70401), (70459, 70460),
     (70464, 70464), (70502, 70508), (70512, 70516), (70712, 70719), (70722, 70724), (70726, 70726),
     (70750, 70750), (70835, 70840), (70842, 70842), (70847, 70848), (70850, 70851), (71090, 71093),
     (71100, 71101), (71103, 71104), (71132, 71133), (71219, 71226), (71229, 71229), (71231, 71232),
     (71339, 71339), (71341, 71341), (71344, 71349), (71351, 71351), (71453, 71455), (71458, 71461),
     (71463, 71467), (71727, 71735), (71737, 71738), (71995, 71996), (71998, 71998), (72003, 72003),
     (72148, 72151), (72154, 72155), (72160, 72160), (72193, 72202), (72243, 72248), (72251, 72254),
     (72263, 72263), (72273, 72278), (72281, 72283), (72330, 72342), (72344, 72345), (72752, 72758),
     (72760, 72765), (72767, 72767), (72850, 72871), (72874, 72880), (72882, 72883), (72885, 72886),
     (73009, 73014), (73018, 73018), (73020, 73021), (73023, 73029), (73031, 73031), (73104, 73105),
     (73109, 73109), (73111, 73111), (73459, 73460), (78896, 78904), (92912, 92916), (92976, 92982),
     (92992, 92995), (94031, 94031), (94095, 94111), (94176, 94177), (94179, 94180), (110576, 110579),
     (110581, 110587), (110589, 110590), (113821, 113822), (113824, 113827), (118528, 118573), (118576, 118598),
     (119143, 119145), (119155, 119170), (119173, 119179), (119210, 119213), (119362, 119364), (121344, 121398),
     (121403, 121452), (121461, 121461), (121476, 121476), (121499, 121503), (121505, 121519), (122880, 122886),
     (122888, 122904), (122907, 122913), (122915, 122916), (122918, 122922), (123184, 123197), (123566, 123566),
     (123628, 123631), (125136, 125142), (125252, 125259), (127995, 127999), (917505, 917505), (917536, 917631),
     (917760, 917999)]"

definition isspace :: "int \<Rightarrow> bool" where
  "isspace c = in_ranges c space_ranges"

definition str_strip :: "ustr \<Rightarrow> ustr" where
  "str_strip s = rev (dropWhile isspace (rev (dropWhile isspace s)))"

fun str_split :: "int \<Rightarrow> ustr \<Rightarrow> ustr list" where
  \<comment> \<open>\<open>s.split(sep)\<close> for a separator of one character: never an empty list\<close>
  "str_split sep [] = [[]]"
| "str_split sep (c # cs) =
     (if c = sep then [] # str_split sep cs
      else (case str_split sep cs of
              [] \<Rightarrow> [[c]]
            | p # ps \<Rightarrow> (c # p) # ps))"

definition to_lower_full :: "int \<Rightarrow> ustr" where
  \<comment> \<open>the lower-case form of one code point; U+0130 alone has a form of two\<close>
  "to_lower_full c =
     (if c = 0x130 then [0x69, 0x307]
      else (case find (\<lambda>(lo, hi, step, delta). lo \<le> c \<and> c \<le> hi \<and> (c - lo) mod step = 0)
                   lower_runs of
              None \<Rightarrow> [c]
            | Some (lo, hi, step, delta) \<Rightarrow> [c + delta]))"

definition is_cased :: "int \<Rightarrow> bool" where
  "is_cased c = in_ranges c cased_ranges"

definition is_case_ignorable :: "int \<Rightarrow> bool" where
  "is_case_ignorable c = in_ranges c case_ignorable_ranges"

definition handle_capital_sigma :: "ustr \<Rightarrow> ustr \<Rightarrow> int" where
  \<comment> \<open>the capital sigma U+03A3 becomes the final sigma U+03C2 when a cased letter
      comes before it and none after it, case-ignorable characters skipped;
      \<open>before\<close> holds the characters before it, the nearest first\<close>
  "handle_capital_sigma before after =
     (let final_sigma =
            (case dropWhile is_case_ignorable before of
               [] \<Rightarrow> False
             | p # ps \<Rightarrow> is_cased p)
            \<and> (case dropWhile is_case_ignorable after of
                 [] \<Rightarrow> True
               | n # ns \<Rightarrow> \<not> is_cased n)
      in if final_sigma then 0x3C2 else 0x3C3)"

fun do_lower :: "ustr \<Rightarrow> ustr \<Rightarrow> ustr" where
  "do_lower before [] = []"
| "do_lower before (c # rest) =
     (if c = 0x3A3 then [handle_capital_sigma before rest] else to_lower_full c)
       @ do_lower (c # before) rest"

definition str_lower :: "ustr \<Rightarrow> ustr" where
  "str_lower s = do_lower [] s"

fun startswith :: "ustr \<Rightarrow> ustr \<Rightarrow> bool" where
  "startswith s [] = True"
| "startswith [] (p # ps) = False"
| "startswith (c # cs) (p # ps) = (c = p \<and> startswith cs ps)"

fun str_contains :: "ustr \<Rightarrow> ustr \<Rightarrow> bool" where
  \<comment> \<open>\<open>str_contains sub s\<close> is Python's \<open>sub in s\<close>\<close>
  "str_contains sub [] = (sub = [])"
| "str_contains sub (c # cs) = (startswith (c # cs) sub \<or> str_contains sub cs)"

definition decimal_of :: "int \<Rightarrow> int option" where
  \<comment> \<open>the value of a decimal digit\<close>
  "decimal_of c =
     (case find (\<lambda>(lo, hi). lo \<le> c \<and> c \<le> hi) decimal_ranges of
        None \<Rightarrow> None
      | Some (lo, hi) \<Rightarrow> Some ((c - lo) mod 10))"

definition is_decimal :: "int \<Rightarrow> bool" where
  "is_decimal c = (decimal_of c \<noteq> None)"

definition digit_value :: "int \<Rightarrow> int" where
  "digit_value c = (case decimal_of c of None \<Rightarrow> 0 | Some d \<Rightarrow> d)"

definition is_digit_char :: "int \<Rightarrow> bool" where
  "is_digit_char c = in_ranges c digit_ranges"

definition str_isdigit :: "ustr \<Rightarrow> bool" where
  \<comment> \<open>\<open>s.isdigit()\<close>: at least one character, and all of them digits\<close>
  "str_isdigit s = (s \<noteq> [] \<and> list_all is_digit_char s)"

definition int_space :: "int \<Rightarrow> bool" where
  \<comment> \<open>the white space \<open>int()\<close> skips on both sides of the literal: of the ASCII
      characters only \<open>\t \n \v \f \r\<close> and the space, beyond them all white space\<close>
  "int_space c = (if c < 127 then (9 \<le> c \<and> c \<le> 13) \<or> c = 32 else isspace c)"

fun digits_from :: "int \<Rightarrow> ustr \<Rightarrow> int option" where
  \<comment> \<open>the rest of a decimal literal: digits, with single underscores between digits\<close>
  "digits_from acc [] = Some acc"
| "digits_from acc [c] =
     (if is_decimal c then Some (10 * acc + digit_value c) else None)"
| "digits_from acc (c # d # ds) =
     (if is_decimal c then digits_from (10 * acc + digit_value c) (d # ds)
      else if c = 0x5F \<and> is_decimal d then digits_from (10 * acc + digit_value d) ds
      else None)"

definition unsigned_literal :: "ustr \<Rightarrow> int option" where
  "unsigned_literal s = (case s of
       [] \<Rightarrow> None
     | c # cs \<Rightarrow> if is_decimal c then digits_from (digit_value c) cs else None)"

definition max_str_digits :: nat where
  \<comment> \<open>the default of \<open>sys.get_int_max_str_digits()\<close>\<close>
  "max_str_digits = 4300"

definition py_int :: "ustr \<Rightarrow> int option" where
  \<comment> \<open>\<open>int(s)\<close> in base 10; \<open>None\<close> is the ValueError, raised also for a literal of
      more than 4300 digits; \<open>0x2D\<close> and \<open>0x2B\<close> are the signs\<close>
  "py_int s = (case rev (dropWhile int_space (rev (dropWhile int_space s))) of
       [] \<Rightarrow> None
     | c # cs \<Rightarrow>
         if max_str_digits < length (filter is_decimal (c # cs)) then None
         else if c = 0x2D then map_option uminus (unsigned_literal cs)
         else if c = 0x2B then unsigned_literal cs
         else unsigned_literal (c # cs))"

function str_digits :: "int \<Rightarrow> ustr" where
  \<comment> \<open>the decimal digits of a number that is not negative\<close>
  "str_digits n = (if n < 10 then [48 + n]
                   else str_digits (n div 10) @ [48 + n mod 10])"
  by pat_completeness auto
termination
  by (relation "measure nat") auto

definition str_int :: "int \<Rightarrow> ustr" where
  \<comment> \<open>how an f-string writes an integer\<close>
  "str_int i = (if i < 0 then 0x2D # str_digits (- i) else str_digits i)"

section \<open>Sessions\<close>

record Session =
  name :: ustr
  windows :: int
  created_timestamp :: int
  is_attached :: bool
  activity_timestamp :: int

definition parse_session_line :: "ustr \<Rightarrow> Session option" where
  \<comment> \<open>a ValueError of \<open>int()\<close> anywhere in the constructor call is caught and gives
      \<open>None\<close>; the indices 0..4 are in range after the length check; \<open>0x7C\<close> is the
      delimiter \<open>|\<close>\<close>
  "parse_session_line line =
     (if line = [] then None
      else let parts = str_split 0x7C line in
        if length parts < 5 then None
        else
          (case (if str_isdigit (parts ! 1) then py_int (parts ! 1) else Some 1) of
             None \<Rightarrow> None
           | Some w \<Rightarrow>
          (case (if str_isdigit (parts ! 2) then py_int (parts ! 2) else Some 0) of
             None \<Rightarrow> None
           | Some c \<Rightarrow>
          (case (if str_isdigit (parts ! 4) then py_int (parts ! 4) else py_int (parts ! 2)) of
             None \<Rightarrow> None
           | Some a \<Rightarrow>
               Some \<lparr>name = parts ! 0, windows = w, created_timestamp = c,
                     is_attached = (parts ! 3 = str ''1''), activity_timestamp = a\<rparr>))))"

section \<open>Relative time\<close>

text \<open>
  The clock is a parameter: \<open>now\<close> is the time of the call in whole seconds since the
  epoch, and \<open>utcoffset\<close> gives, for every instant, the seconds by which local time is
  ahead of UTC at that instant. A naive local \<open>datetime\<close> is modelled by its seconds on
  the local wall clock, counted from the wall clock reading 1970-01-01 00:00:00.
  \<open>datetime.now()\<close> also has microseconds, but \<open>datetime.fromtimestamp\<close> of an integer
  has none, so they change neither \<open>delta.days\<close> nor \<open>delta.seconds\<close>. A \<open>timedelta\<close> is
  normalised: \<open>days\<close> is the floor of the quotient by 86400 and may be negative,
  \<open>seconds\<close> is the remainder, from 0 to 86399.
\<close>

record clock =
  now :: int
  utcoffset :: "int \<Rightarrow> int"

definition local_seconds :: "clock \<Rightarrow> int \<Rightarrow> int option" where
  \<comment> \<open>the wall clock at an instant; \<open>None\<close> is the failure for a year outside 1 to
      9999 (ValueError, or OSError and OverflowError further out)\<close>
  "local_seconds clk t =
     (let wall = t + utcoffset clk t
      in if - 62135596800 \<le> wall \<and> wall \<le> 253402300799 then Some wall else None)"

definition fromtimestamp :: "clock \<Rightarrow> int \<Rightarrow> int option" where
  \<comment> \<open>to find the fold of a repeated hour, CPython also converts the instant one
      day earlier, and a third instant when the offset went down within that day;
      each conversion can fail\<close>
  "fromtimestamp clk t =
     (case local_seconds clk t of
        None \<Rightarrow> None
      | Some result \<Rightarrow>
     (case local_seconds clk (t - 86400) of
        None \<Rightarrow> None
      | Some probe \<Rightarrow>
          let transition = result - probe - 86400
          in if transition < 0 then
               (case local_seconds clk (t + transition) of
                  None \<Rightarrow> None
                | Some probe' \<Rightarrow> Some result)
             else Some result))"

definition format_time_ago :: "clock \<Rightarrow> int \<Rightarrow> ustr" where
  "format_time_ago clk timestamp =
     (case fromtimestamp clk (now clk) of
        None \<Rightarrow> str ''unknown''
      | Some n \<Rightarrow>
     (case fromtimestamp clk timestamp of
        None \<Rightarrow> str ''unknown''
      | Some t \<Rightarrow>
          let delta = n - t;
              days = delta div 86400;
              seconds = delta mod 86400
          in if days > 0 then str_int days @ str ''d ago''
             else let hours = seconds div 3600
               in if hours > 0 then str_int hours @ str ''h ago''
                  else let minutes = seconds div 60
                    in if minutes > 0 then str_int minutes @ str ''m ago''
                       else str ''just now''))"

section \<open>Output items\<close>

text \<open>
  The keys of the dictionaries are literals of the program and stay Isabelle strings;
  the values are Python strings.
\<close>

datatype json =
    JString ustr
  | JBool bool
  | JArray "json list"
  | JObject "(string \<times> json) list"

definition status_emoji :: "Session \<Rightarrow> ustr" where
  \<comment> \<open>U+1F7E2 is the green circle, U+26AA the white one\<close>
  "status_emoji s =
     (if is_attached s then [0x1F7E2] @ str '' attached''
      else [0x26AA] @ str '' detached'')"

definition created_ago :: "clock \<Rightarrow> Session \<Rightarrow> ustr" where
  "created_ago clk s = format_time_ago clk (created_timestamp s)"

definition activity_ago :: "clock \<Rightarrow> Session \<Rightarrow> ustr" where
  "activity_ago clk s = format_time_ago clk (activity_timestamp s)"

definition bullet :: ustr where
  "bullet = [0x2022]"

definition subtitle :: "clock \<Rightarrow> Session \<Rightarrow> ustr" where
  "subtitle clk s =
     status_emoji s @ str '' '' @ bullet @ str '' '' @ str_int (windows s) @ str '' windows ''
       @ bullet @ str '' created '' @ created_ago clk s @ str '' ''
       @ bullet @ str '' active '' @ activity_ago clk s"

definition to_alfred_item :: "clock \<Rightarrow> Session \<Rightarrow> json" where
  "to_alfred_item clk s =
     JObject
       [(''title'', JString (name s)),
        (''subtitle'', JString (subtitle clk s)),
        (''arg'', JString (name s)),
        (''mods'', JObject
           [(''cmd'', JObject
               [(''subtitle'', JString (str ''Delete session '' @ name s)),
                (''arg'', JString (str ''delete:'' @ name s))]),
            (''ctrl'', JObject
               [(''subtitle'', JString
                   (if is_attached s then str ''Detach from session '' @ name s
                    else str ''Session '' @ name s @ str '' already detached'')),
                (''arg'', JString (str ''detach:'' @ name s)),
                (''valid'', JBool (is_attached s))])])]"

section \<open>The session source\<close>

text \<open>
  \<open>subprocess.run(..., check=True, timeout=5)\<close> either returns, and then the exit status
  was zero and \<open>stdout\<close> is the captured text, or raises: CalledProcessError for an exit
  status that is not zero, TimeoutExpired after five seconds, FileNotFoundError when there
  is no executable, or any other exception. The outcome of the call is a parameter.
\<close>

datatype exn_kind = CalledProcessError | TimeoutExpired | FileNotFoundError | OtherException

record exn =
  kind :: exn_kind
  message :: ustr

fun parse_lines :: "ustr list \<Rightarrow> Session list" where
  "parse_lines [] = []"
| "parse_lines (line # rest) =
     (case parse_session_line line of
        None \<Rightarrow> parse_lines rest
      | Some session \<Rightarrow> session # parse_lines rest)"

definition get_tmux_sessions :: "exn + ustr \<Rightarrow> exn + Session list" where
  \<comment> \<open>\<open>0x0A\<close> is the newline\<close>
  "get_tmux_sessions run =
     (case run of
        Inr stdout \<Rightarrow>
          if str_strip stdout = [] then Inr []
          else Inr (parse_lines (str_split 0x0A (str_strip stdout)))
      | Inl e \<Rightarrow>
          if kind e = CalledProcessError then Inr []
          else if kind e = TimeoutExpired then Inr []
          else Inl e)"

section \<open>Names, prompts, filtering\<close>

definition INVALID_SESSION_CHARS :: "ustr list" where
  \<comment> \<open>the period, the colon, the space, the newline and the tab\<close>
  "INVALID_SESSION_CHARS = [str ''.'', str '':'', str '' '', [0x0A], [0x09]]"

definition is_valid_session_name :: "ustr \<Rightarrow> bool" where
  "is_valid_session_name candidate =
     (candidate \<noteq> [] \<and> \<not> list_ex (\<lambda>char. str_contains char candidate) INVALID_SESSION_CHARS)"

definition create_session_prompt :: "ustr \<Rightarrow> json" where
  "create_session_prompt query =
     (if is_valid_session_name query then
        JObject
          [(''title'', JString (str ''Create new session \"'' @ query @ str ''\"'')),
           (''subtitle'', JString (str ''Press Enter to create this tmux session'')),
           (''arg'', JString (str ''create:'' @ query)),
           (''icon'', JObject [(''path'', JString (str ''icon.png''))])]
      else
        JObject
          [(''title'', JString (str ''Invalid session name \"'' @ query @ str ''\"'')),
           (''subtitle'',
              JString (str ''Session names cannot contain spaces, dots, or colons'')),
           (''valid'', JBool False)])"

definition create_empty_state_prompt :: json where
  "create_empty_state_prompt =
     JObject
       [(''title'', JString (str ''No tmux sessions found'')),
        (''subtitle'', JString (str ''Start typing to create a new session'')),
        (''valid'', JBool False)]"

definition matches :: "ustr \<Rightarrow> Session \<Rightarrow> bool" where
  \<comment> \<open>the condition of the list comprehension\<close>
  "matches query s = (query = [] \<or> str_contains (str_lower query) (str_lower (name s)))"

definition sort_key_of :: "Session \<Rightarrow> bool \<times> int \<times> ustr" where
  \<comment> \<open>the \<open>key\<close> of \<open>sorted\<close>; tuples, and strings by code point, compare
      lexicographically\<close>
  "sort_key_of s = (\<not> is_attached s, - activity_timestamp s, str_lower (name s))"

definition filter_and_sort_sessions :: "Session list \<Rightarrow> ustr \<Rightarrow> Session list" where
  \<comment> \<open>\<open>sorted\<close> is stable, and so is \<^const>\<open>sort_key\<close>\<close>
  "filter_and_sort_sessions sessions query =
     sort_key sort_key_of (filter (matches query) sessions)"

section \<open>The entry point\<close>

definition items_document :: "json list \<Rightarrow> json" where
  "items_document items = JObject [(''items'', JArray items)]"

definition read_query :: "ustr list \<Rightarrow> ustr" where
  \<comment> \<open>the first statement of \<open>main\<close>; \<open>argv ! 0\<close> is the name of the script\<close>
  "read_query argv = (if length argv > 1 then str_strip (argv ! 1) else [])"

definition main :: "ustr list \<Rightarrow> exn + ustr \<Rightarrow> clock \<Rightarrow> json list" where
  \<comment> \<open>the result is what the call prints, one document for each \<open>print\<close>\<close>
  "main argv run clk =
     (let query = read_query argv
      in case get_tmux_sessions run of
           Inr sessions \<Rightarrow>
             let filtered_sessions = filter_and_sort_sessions sessions query;
                 items = map (to_alfred_item clk) filtered_sessions
             in [items_document
                   (if items = [] then
                      (if query \<noteq> [] then [create_session_prompt query]
                       else [create_empty_state_prompt])
                    else items)]
         | Inl e \<Rightarrow>
             if kind e = FileNotFoundError then
               [items_document
                  [JObject
                     [(''title'', JString (str ''tmux not found'')),
                      (''subtitle'', JString (str ''Install tmux: brew install tmux'')),
                      (''valid'', JBool False)]]]
             else
               [items_document
                  [JObject
                     [(''title'', JString (str ''Unexpected error'')),
                      (''subtitle'', JString (message e)),
                      (''valid'', JBool False)]]])"

section \<open>Notions of the specification\<close>

definition decimal_value :: "ustr \<Rightarrow> int" where
  \<comment> \<open>the number that a string of decimal digits denotes\<close>
  "decimal_value s = foldl (\<lambda>acc c. 10 * acc + digit_value c) 0 s"

definition refused :: "ustr \<Rightarrow> bool" where
  \<comment> \<open>a field that passes \<open>isdigit()\<close> and that \<open>int()\<close> refuses: it has a digit that
      is not a decimal, such as a superscript, or more than 4300 digits\<close>
  "refused f = (str_isdigit f \<and> py_int f = None)"

definition utc :: "int \<Rightarrow> clock" where
  \<comment> \<open>the clock of a machine on UTC\<close>
  "utc t = \<lparr>now = t, utcoffset = (\<lambda>instant. 0)\<rparr>"

fun field :: "string \<Rightarrow> json \<Rightarrow> json option" where
  "field k (JObject kvs) = map_of kvs k"
| "field k (JString v) = None"
| "field k (JBool v) = None"
| "field k (JArray v) = None"

fun at_path :: "string list \<Rightarrow> json \<Rightarrow> json option" where
  "at_path [] j = Some j"
| "at_path (k # ks) j = (case field k j of None \<Rightarrow> None | Some v \<Rightarrow> at_path ks v)"

definition is_enabled :: "json \<Rightarrow> bool" where
  \<comment> \<open>the output schema: \<open>valid\<close> is a boolean, true when the key is absent\<close>
  "is_enabled j = (case field ''valid'' j of Some (JBool b) \<Rightarrow> b | _ \<Rightarrow> True)"

definition optional_string :: "json option \<Rightarrow> bool" where
  "optional_string v = (case v of None \<Rightarrow> True | Some (JString t) \<Rightarrow> True | _ \<Rightarrow> False)"

definition optional_bool :: "json option \<Rightarrow> bool" where
  "optional_bool v = (case v of None \<Rightarrow> True | Some (JBool b) \<Rightarrow> True | _ \<Rightarrow> False)"

fun is_mod :: "json \<Rightarrow> bool" where
  \<comment> \<open>a secondary action: an object with its own \<open>subtitle\<close>, \<open>arg\<close> and optional \<open>valid\<close>\<close>
  "is_mod (JObject kvs) =
     (distinct (map fst kvs)
      \<and> optional_string (map_of kvs ''subtitle'')
      \<and> optional_string (map_of kvs ''arg'')
      \<and> optional_bool (map_of kvs ''valid''))"
| "is_mod (JString v) = False"
| "is_mod (JBool v) = False"
| "is_mod (JArray v) = False"

fun is_item :: "json \<Rightarrow> bool" where
  \<comment> \<open>an item of the output schema: an object with a \<open>title\<close> string, optional
      \<open>subtitle\<close> and \<open>arg\<close> strings, an optional \<open>valid\<close> boolean and optional \<open>mods\<close>\<close>
  "is_item (JObject kvs) =
     (distinct (map fst kvs)
      \<and> (case map_of kvs ''title'' of Some (JString t) \<Rightarrow> True | _ \<Rightarrow> False)
      \<and> optional_string (map_of kvs ''subtitle'')
      \<and> optional_string (map_of kvs ''arg'')
      \<and> optional_bool (map_of kvs ''valid'')
      \<and> (case map_of kvs ''mods'' of
            None \<Rightarrow> True
          | Some (JObject ms) \<Rightarrow> distinct (map fst ms) \<and> list_all is_mod (map snd ms)
          | _ \<Rightarrow> False))"
| "is_item (JString v) = False"
| "is_item (JBool v) = False"
| "is_item (JArray v) = False"

fun is_items_document :: "json \<Rightarrow> bool" where
  \<comment> \<open>the wrapper object: one key, \<open>items\<close>, with the list of items\<close>
  "is_items_document (JObject [(k, JArray items)]) = (k = ''items'' \<and> list_all is_item items)"
| "is_items_document j = False"

section \<open>Facts about the string functions\<close>

lemma startswith_iff: "startswith s p \<longleftrightarrow> (\<exists>suf. s = p @ suf)"
  by (induction s p rule: startswith.induct) auto

lemma str_contains_iff: "str_contains sub s \<longleftrightarrow> (\<exists>pre suf. s = pre @ sub @ suf)"
proof (induction s)
  case Nil
  then show ?case by auto
next
  case (Cons c cs)
  show ?case
  proof
    assume "str_contains sub (c # cs)"
    then consider "startswith (c # cs) sub" | "str_contains sub cs" by auto
    then show "\<exists>pre suf. c # cs = pre @ sub @ suf"
    proof cases
      case 1
      then obtain suf where "c # cs = sub @ suf" by (auto simp: startswith_iff)
      then have "c # cs = [] @ sub @ suf" by simp
      then show ?thesis by blast
    next
      case 2
      with Cons obtain pre suf where "cs = pre @ sub @ suf" by blast
      then have "c # cs = (c # pre) @ sub @ suf" by simp
      then show ?thesis by blast
    qed
  next
    assume "\<exists>pre suf. c # cs = pre @ sub @ suf"
    then obtain pre suf where eq: "c # cs = pre @ sub @ suf" by blast
    show "str_contains sub (c # cs)"
    proof (cases pre)
      case Nil
      with eq have "startswith (c # cs) sub" by (auto simp: startswith_iff)
      then show ?thesis by simp
    next
      case (Cons p ps)
      with eq have "cs = ps @ sub @ suf" by simp
      with Cons.IH have "str_contains sub cs" by blast
      then show ?thesis by simp
    qed
  qed
qed

lemma str_contains_single: "str_contains [c] s \<longleftrightarrow> c \<in> set s"
  by (induction s) auto

lemma str_contains_middle: "str_contains sub (pre @ sub @ suf)"
  unfolding str_contains_iff by blast

lemma str_append: "str a @ str b = str (a @ b)"
  by (simp add: str_def)

lemma str_split_nonempty: "str_split sep s \<noteq> []"
  by (induction s) (auto split: list.splits)

lemma str_split_first: "str_split sep s ! 0 = takeWhile (\<lambda>c. c \<noteq> sep) s"
  using str_split_nonempty [of sep] by (induction s) (auto split: list.splits)

section \<open>Session names\<close>

text \<open>
  C7. \<open>is_valid_session_name\<close> holds exactly for the names that are not empty and
  have no space, tab (code point 9), newline (code point 10), period or colon. In
  particular the empty name is not valid. The function is total: it is defined by
  structural recursion on its argument.
\<close>

theorem is_valid_session_name_iff:
  "is_valid_session_name candidate \<longleftrightarrow>
     candidate \<noteq> [] \<and> of_char (CHR '' '') \<notin> set candidate \<and> 9 \<notin> set candidate
       \<and> 10 \<notin> set candidate \<and> of_char (CHR ''.'') \<notin> set candidate
       \<and> of_char (CHR '':'') \<notin> set candidate"
  by (auto simp: is_valid_session_name_def INVALID_SESSION_CHARS_def str_def
      str_contains_single)

section \<open>Facts about the tables\<close>

lemma in_ranges_iff: "in_ranges c rs \<longleftrightarrow> (\<exists>(lo, hi) \<in> set rs. lo \<le> c \<and> c \<le> hi)"
  by (simp add: in_ranges_def list_ex_iff)

lemma in_ranges_apart:
  assumes "list_all (\<lambda>(lo, hi). list_all (\<lambda>(a, b). hi < a \<or> b < lo) rs') rs"
    and "in_ranges c rs"
  shows "\<not> in_ranges c rs'"
  using assms by (fastforce simp: in_ranges_iff list_all_iff)

lemma in_ranges_above:
  assumes "list_all (\<lambda>(lo, hi). k \<le> lo) rs" and "in_ranges c rs"
  shows "k \<le> c"
  using assms by (fastforce simp: in_ranges_iff list_all_iff)

lemma digits_apart_from_spaces:
  "list_all (\<lambda>(lo, hi). list_all (\<lambda>(a, b). hi < a \<or> b < lo) space_ranges) digit_ranges"
  by code_simp

lemma digits_apart_from_underscore:
  "list_all (\<lambda>(lo, hi). list_all (\<lambda>(a, b). hi < a \<or> b < lo) [(0x5F, 0x5F)]) digit_ranges"
  by code_simp

lemma digits_above_signs: "list_all (\<lambda>(lo, hi). 48 \<le> lo) digit_ranges"
  by code_simp

lemma digit_not_space: "is_digit_char c \<Longrightarrow> \<not> int_space c"
proof -
  assume d: "is_digit_char c"
  then have "48 \<le> c"
    using in_ranges_above [OF digits_above_signs] by (simp add: is_digit_char_def)
  moreover have "\<not> isspace c"
    using in_ranges_apart [OF digits_apart_from_spaces] d
    by (simp add: is_digit_char_def isspace_def)
  ultimately show ?thesis by (simp add: int_space_def)
qed

lemma digit_not_sign: "is_digit_char c \<Longrightarrow> c \<noteq> 0x2D \<and> c \<noteq> 0x2B"
  using in_ranges_above [OF digits_above_signs, of c] by (auto simp: is_digit_char_def)

lemma digit_not_underscore: "is_digit_char c \<Longrightarrow> c \<noteq> 0x5F"
  using in_ranges_apart [OF digits_apart_from_underscore, of c]
  by (auto simp: is_digit_char_def in_ranges_def)

section \<open>Parsing a line\<close>

lemma digits_from_digits:
  "list_all is_digit_char s \<Longrightarrow>
   digits_from acc s =
     (if list_all is_decimal s then Some (foldl (\<lambda>a c. 10 * a + digit_value c) acc s) else None)"
proof (induction acc s rule: digits_from.induct)
  case (1 acc)
  then show ?case by simp
next
  case (2 acc c)
  then show ?case by simp
next
  case (3 acc c d ds)
  then show ?case by (auto simp: digit_not_underscore)
qed

lemma strip_digits: "list_all is_digit_char s \<Longrightarrow> dropWhile int_space s = s"
  by (cases s) (auto simp: digit_not_space)

text \<open>
  On a string that passes \<open>isdigit()\<close>, \<open>int()\<close> gives the decimal value when all
  characters are decimal digits and there are at most 4300 of them, and raises otherwise.
\<close>

lemma py_int_isdigit:
  assumes "str_isdigit s"
  shows "py_int s =
    (if list_all is_decimal s \<and> length s \<le> max_str_digits then Some (decimal_value s)
     else None)"
proof -
  from assms obtain c cs where s: "s = c # cs" and all: "list_all is_digit_char (c # cs)"
    by (cases s) (auto simp: str_isdigit_def)
  have "list_all is_digit_char (rev s)" using all s by (simp add: list_all_iff)
  then have "dropWhile int_space (rev s) = rev s" by (rule strip_digits)
  moreover have "dropWhile int_space s = s" using all s strip_digits by blast
  ultimately have strip: "rev (dropWhile int_space (rev (dropWhile int_space s))) = c # cs"
    using s by simp
  have sign: "c \<noteq> 0x2D" "c \<noteq> 0x2B"
    using all digit_not_sign [of c] by auto
  have cs: "list_all is_digit_char cs" using all by simp
  have literal: "unsigned_literal (c # cs) =
      (if list_all is_decimal (c # cs) then Some (decimal_value (c # cs)) else None)"
    by (simp add: unsigned_literal_def decimal_value_def digits_from_digits [OF cs])
  have count: "list_all is_decimal (c # cs) \<Longrightarrow> filter is_decimal (c # cs) = c # cs"
    by (simp add: list_all_iff)
  show ?thesis
  proof (cases "list_all is_decimal (c # cs)")
    case True
    with count have "filter is_decimal (c # cs) = c # cs" by blast
    with True show ?thesis
      unfolding py_int_def strip using sign s literal by (auto simp: Let_def)
  next
    case False
    then show ?thesis
      unfolding py_int_def strip using sign s literal by (auto simp: Let_def)
  qed
qed

text \<open>
  Some readings of the library functions beyond ASCII: the Arabic-Indic digit three
  passes \<open>isdigit()\<close> and \<open>int()\<close> reads it; the superscript two passes \<open>isdigit()\<close>
  and \<open>int()\<close> refuses it; \<open>int()\<close> skips white space and takes a sign and single
  underscores; a literal of 4301 digits is refused; the capital I with a dot above has
  a lower-case form of two code points.
\<close>

lemma library_readings:
  "str_isdigit [0x663] \<and> py_int [0x663] = Some 3"
  "str_isdigit [0xB2] \<and> py_int [0xB2] = None"
  "py_int (str '' -1_0 '') = Some (- 10) \<and> py_int (str ''- 5'') = None"
  "str_lower [0x130] = [0x69, 0x307]"
  by (code_simp+)

lemma py_int_digit_limit: "py_int (replicate 4301 0x31) = None"
proof -
  have "is_digit_char 0x31" by code_simp
  then have "str_isdigit (replicate 4301 0x31)"
    by (simp add: str_isdigit_def list_all_iff)
  then show ?thesis
    by (simp add: py_int_isdigit max_str_digits_def)
qed

text \<open>
  C1. A line of at least five fields should always give a session, a malformed activity
  field taking the created time that was already resolved (0 when that field is malformed
  too). The code does not do this: where the activity field fails \<open>isdigit()\<close>, line 173
  calls \<open>int()\<close> on the raw third field, without the \<open>isdigit()\<close> guard that line 171 has.
  With both fields malformed the ValueError is caught and the whole line is dropped; with
  a third field such as \<open>-5\<close>, which \<open>int()\<close> accepts, the created time is 0 and the
  activity time is -5.
\<close>

theorem parse_session_line_malformed_timestamps:
  "parse_session_line (str ''a|1|x|1|y'') = None
   \<and> parse_session_line (str ''a|1|-5|1|y'') =
       Some \<lparr>name = str ''a'', windows = 1, created_timestamp = 0, is_attached = True,
             activity_timestamp = - 5\<rparr>"
  by code_simp

text \<open>
  A line of at least five fields is dropped in these cases only: its second, third or
  fifth field passes \<open>isdigit()\<close> and \<open>int()\<close> refuses it, or its fifth field fails
  \<open>isdigit()\<close> and \<open>int()\<close> refuses the third field.
\<close>

lemma parse_session_line_None_iff:
  assumes "5 \<le> length (str_split 0x7C line)"
  shows "parse_session_line line = None \<longleftrightarrow>
     (let parts = str_split 0x7C line in
        refused (parts ! 1) \<or> refused (parts ! 2) \<or> refused (parts ! 4)
      \<or> (\<not> str_isdigit (parts ! 4) \<and> py_int (parts ! 2) = None))"
proof -
  have "line \<noteq> []" using assms by auto
  with assms show ?thesis
    by (auto simp: parse_session_line_def Let_def refused_def split: option.splits if_splits)
qed

text \<open>
  C5 as the claim states it fails: \<open>-5\<close> is an integer literal for \<open>int()\<close>, but the
  third field is guarded by \<open>isdigit()\<close>, which a sign does not pass, so the created time
  is 0. And a third field that is an integer literal does not give the session its value
  when the line is dropped for another field: a superscript two in the second field
  passes \<open>isdigit()\<close>, \<open>int()\<close> refuses it, and the line is gone.
\<close>

theorem created_timestamp_negative_literal:
  "py_int (str ''-5'') = Some (- 5)
   \<and> parse_session_line (str ''a|1|-5|1|7'') =
       Some \<lparr>name = str ''a'', windows = 1, created_timestamp = 0, is_attached = True,
             activity_timestamp = 7\<rparr>
   \<and> py_int (str ''5'') = Some 5
   \<and> parse_session_line (str ''a|'' @ [0xB2] @ str ''|5|1|7'') = None"
  by code_simp

text \<open>
  C5, amended. Take a line of at least five fields in which no numeric field (the
  second, third and fifth) is refused, that is, passes \<open>isdigit()\<close> and is not read by
  \<open>int()\<close>, and in which the fifth field passes \<open>isdigit()\<close> or \<open>int()\<close> reads the
  third. Such a line gives a session. Its created time is the decimal value of the
  third field when that field passes \<open>isdigit()\<close>, and 0 in every other case, signed
  literals such as \<open>-5\<close> included.
\<close>

theorem created_timestamp_rule:
  assumes "5 \<le> length (str_split 0x7C line)"
    and "\<not> refused (str_split 0x7C line ! 1)"
    and "\<not> refused (str_split 0x7C line ! 2)"
    and "\<not> refused (str_split 0x7C line ! 4)"
    and "str_isdigit (str_split 0x7C line ! 4) \<or> py_int (str_split 0x7C line ! 2) \<noteq> None"
  shows "\<exists>s. parse_session_line line = Some s
     \<and> created_timestamp s =
         (if str_isdigit (str_split 0x7C line ! 2) then decimal_value (str_split 0x7C line ! 2)
          else 0)"
proof -
  define parts where "parts = str_split 0x7C line"
  have kept: "parse_session_line line \<noteq> None"
    using assms parse_session_line_None_iff [OF assms(1)] by (auto simp: Let_def)
  then obtain s where s: "parse_session_line line = Some s" by blast
  have "line \<noteq> []" using assms(1) by auto
  with s assms(1)
  have c: "(if str_isdigit (parts ! 2) then py_int (parts ! 2) else Some 0)
             = Some (created_timestamp s)"
    unfolding parse_session_line_def parts_def
    by (auto simp: Let_def split: if_splits option.splits)
  have "created_timestamp s =
      (if str_isdigit (parts ! 2) then decimal_value (parts ! 2) else 0)"
  proof (cases "str_isdigit (parts ! 2)")
    case True
    with c have "py_int (parts ! 2) = Some (created_timestamp s)" by simp
    with True show ?thesis by (auto simp: py_int_isdigit split: if_splits)
  next
    case False
    with c show ?thesis by simp
  qed
  with s show ?thesis unfolding parts_def by blast
qed

theorem created_timestamp_rule_witness:
  "(\<exists>s. parse_session_line (str ''work|3|1700000000|1|1700003600'') = Some s
        \<and> created_timestamp s = 1700000000)
   \<and> (\<exists>s. parse_session_line (str ''work|3|-5|1|1700003600'') = Some s
        \<and> created_timestamp s = 0)
   \<and> (\<exists>s. parse_session_line (str ''work|3|'' @ [0x663, 0x664] @ str ''|1|x'') = Some s
        \<and> created_timestamp s = 34)"
proof -
  let ?a = "str ''work|3|1700000000|1|1700003600''"
  let ?b = "str ''work|3|-5|1|1700003600''"
  let ?c = "str ''work|3|'' @ [0x663, 0x664] @ str ''|1|x''"
  have a: "str_split 0x7C ?a
      = [str ''work'', str ''3'', str ''1700000000'', str ''1'', str ''1700003600'']"
    by code_simp
  have b: "str_split 0x7C ?b
      = [str ''work'', str ''3'', str ''-5'', str ''1'', str ''1700003600'']"
    by code_simp
  have c: "str_split 0x7C ?c = [str ''work'', str ''3'', [0x663, 0x664], str ''1'', str ''x'']"
    by code_simp
  have fields:
    "\<not> refused (str ''3'')" "\<not> refused (str ''1700000000'')" "\<not> refused (str ''1700003600'')"
    "\<not> refused (str ''-5'')" "\<not> refused [0x663, 0x664]" "\<not> refused (str ''x'')"
    "str_isdigit (str ''1700003600'')" "str_isdigit (str ''1700000000'')"
    "\<not> str_isdigit (str ''-5'')" "str_isdigit [0x663, 0x664]"
    "py_int [0x663, 0x664] \<noteq> None"
    "decimal_value (str ''1700000000'') = 1700000000" "decimal_value [0x663, 0x664] = 34"
    by (code_simp+)
  show ?thesis
    using created_timestamp_rule [of ?a] created_timestamp_rule [of ?b]
      created_timestamp_rule [of ?c] fields
    unfolding a b c by simp
qed

text \<open>
  C10. A line of more than five fields should be parsed from its first five fields and
  never dropped. The unguarded \<open>int()\<close> of line 173 drops such a line too when its third
  and fifth fields are both malformed (the defect of C1).
\<close>

theorem parse_session_line_extra_field_dropped:
  "parse_session_line (str ''a|1|x|1|y|z'') = None"
  by code_simp

text \<open>
  What does hold of a line with more fields: nothing after the fifth field is read, and
  the name of a session is the text before the first delimiter.
\<close>

lemma parse_session_line_first_five:
  assumes "5 \<le> length (str_split 0x7C line)" and "5 \<le> length (str_split 0x7C line')"
    and "take 5 (str_split 0x7C line) = take 5 (str_split 0x7C line')"
  shows "parse_session_line line = parse_session_line line'"
proof -
  define build :: "ustr list \<Rightarrow> Session option" where
    "build parts =
       (case (if str_isdigit (parts ! 1) then py_int (parts ! 1) else Some 1) of
          None \<Rightarrow> None
        | Some w \<Rightarrow>
       (case (if str_isdigit (parts ! 2) then py_int (parts ! 2) else Some 0) of
          None \<Rightarrow> None
        | Some c \<Rightarrow>
       (case (if str_isdigit (parts ! 4) then py_int (parts ! 4) else py_int (parts ! 2)) of
          None \<Rightarrow> None
        | Some a \<Rightarrow>
            Some \<lparr>name = parts ! 0, windows = w, created_timestamp = c,
                  is_attached = (parts ! 3 = str ''1''), activity_timestamp = a\<rparr>)))" for parts
  have first_five: "parse_session_line l = build (take 5 (str_split 0x7C l))"
    if "5 \<le> length (str_split 0x7C l)" for l
  proof -
    let ?parts = "str_split 0x7C l"
    have "l \<noteq> []" using that by auto
    have nth: "take 5 ?parts ! 0 = ?parts ! 0" "take 5 ?parts ! 1 = ?parts ! 1"
      "take 5 ?parts ! 2 = ?parts ! 2" "take 5 ?parts ! 3 = ?parts ! 3"
      "take 5 ?parts ! 4 = ?parts ! 4"
      by simp_all
    show ?thesis
      unfolding build_def nth using that \<open>l \<noteq> []\<close>
      by (simp add: parse_session_line_def Let_def)
  qed
  show ?thesis
    using first_five [OF assms(1)] first_five [OF assms(2)] assms(3) by simp
qed

lemma parse_session_line_name:
  "parse_session_line line = Some s \<Longrightarrow> name s = takeWhile (\<lambda>c. c \<noteq> 0x7C) line"
  by (auto simp: parse_session_line_def Let_def str_split_first [symmetric]
      split: if_splits option.splits)

section \<open>The age of a timestamp\<close>

text \<open>
  C6. For a timestamp later than \<open>now\<close> no unit has a value of at least 1, so the result
  should be \<open>just now\<close>. The code tests \<open>delta.days > 0\<close> and then reads \<open>delta.seconds\<close>,
  which for a negative difference is the remainder of the day: a timestamp one minute
  ahead is reported as 23 hours old, on a machine on UTC and on one five hours behind.
\<close>

theorem format_time_ago_future:
  "format_time_ago (utc 1700000000) 1700000060 = str ''23h ago''
   \<and> format_time_ago \<lparr>now = 1700000000, utcoffset = (\<lambda>instant. - 18000)\<rparr> 1700000060
       = str ''23h ago''"
  by code_simp

text \<open>
  When both conversions succeed and the wall clock of the timestamp is not later than
  that of \<open>now\<close>, the result is as the claim says, with the age taken between the two
  wall clocks; when a conversion fails the result is \<open>unknown\<close>.
\<close>

lemma format_time_ago_past:
  assumes "fromtimestamp clk (now clk) = Some n" and "fromtimestamp clk timestamp = Some t"
    and "t \<le> n"
  shows "format_time_ago clk timestamp =
    (let age = n - t in
     if 86400 \<le> age then str_int (age div 86400) @ str ''d ago''
     else if 3600 \<le> age then str_int (age div 3600) @ str ''h ago''
     else if 60 \<le> age then str_int (age div 60) @ str ''m ago''
     else str ''just now'')"
proof -
  define age where "age = n - t"
  have nonneg: "0 \<le> age" using assms by (simp add: age_def)
  have d: "0 < age div 86400 \<longleftrightarrow> 86400 \<le> age"
    using nonneg by (simp add: pos_imp_zdiv_pos_iff)
  have m: "\<not> 86400 \<le> age \<Longrightarrow> age mod 86400 = age" using nonneg by simp
  have h: "0 < age div 3600 \<longleftrightarrow> 3600 \<le> age"
    using nonneg by (simp add: pos_imp_zdiv_pos_iff)
  have mi: "0 < age div 60 \<longleftrightarrow> 60 \<le> age"
    using nonneg by (simp add: pos_imp_zdiv_pos_iff)
  show ?thesis
    unfolding format_time_ago_def using assms(1,2) d m h mi
    by (simp add: Let_def age_def [symmetric])
qed

lemma format_time_ago_invalid:
  "fromtimestamp clk timestamp = None \<Longrightarrow> format_time_ago clk timestamp = str ''unknown''"
  by (simp add: format_time_ago_def split: option.splits)

text \<open>
  Two checks of the clock. On UTC the first valid timestamp is one day after the start of
  year 1, because of the conversion of the day before. And where the offset went from
  four to five hours behind UTC between the timestamp and \<open>now\<close>, the age is taken
  between the wall clocks: ten days and half an hour of elapsed time count as nine days.
\<close>

lemma fromtimestamp_first_day:
  "fromtimestamp (utc t) (- 62135510401) = None
   \<and> fromtimestamp (utc t) (- 62135510400) = Some (- 62135510400)"
  by (simp add: fromtimestamp_def local_seconds_def utc_def)

lemma format_time_ago_daylight_saving:
  "format_time_ago
     \<lparr>now = 1700000000,
      utcoffset = (\<lambda>instant. if instant < 1699164000 then - 14400 else - 18000)\<rparr>
     1699134200
   = str ''9d ago''"
  by code_simp

section \<open>The item of a session\<close>

lemma is_item_to_alfred_item: "is_item (to_alfred_item clk s)"
  by (simp add: to_alfred_item_def optional_string_def optional_bool_def)

lemma is_item_create_session_prompt: "is_item (create_session_prompt query)"
  by (simp add: create_session_prompt_def optional_string_def optional_bool_def)

lemma is_item_create_empty_state_prompt: "is_item create_empty_state_prompt"
  by (simp add: create_empty_state_prompt_def optional_string_def optional_bool_def)

lemma is_items_document_items: "is_items_document (items_document items) = list_all is_item items"
  by (simp add: items_document_def)

text \<open>
  C8. The item of a session has the name as its title and as its argument, a \<open>cmd\<close>
  action with the argument \<open>delete:\<close> and the name, which is always enabled (it has no
  \<open>valid\<close> key), and a \<open>ctrl\<close> action with the argument \<open>detach:\<close> and the name, whose
  \<open>valid\<close> flag is the attached status. When the command prints the single line
  \<open>work|3|1700000000|1|1700003600\<close> and the query is empty, the program prints one item:
  its title is \<open>work\<close>, its subtitle contains \<open>attached\<close> and \<open>3 windows\<close>, its
  argument is \<open>work\<close>, the \<open>cmd\<close> argument is \<open>delete:work\<close>, and the \<open>ctrl\<close> action is
  valid with the argument \<open>detach:work\<close>. This holds for every clock.
\<close>

theorem to_alfred_item_fields:
  "at_path [''title''] (to_alfred_item clk s) = Some (JString (name s))
   \<and> at_path [''arg''] (to_alfred_item clk s) = Some (JString (name s))
   \<and> at_path [''mods'', ''cmd'', ''arg''] (to_alfred_item clk s)
       = Some (JString (str ''delete:'' @ name s))
   \<and> (\<exists>cmd. at_path [''mods'', ''cmd''] (to_alfred_item clk s) = Some cmd \<and> is_enabled cmd)
   \<and> at_path [''mods'', ''ctrl'', ''arg''] (to_alfred_item clk s)
       = Some (JString (str ''detach:'' @ name s))
   \<and> at_path [''mods'', ''ctrl'', ''valid''] (to_alfred_item clk s) = Some (JBool (is_attached s))
   \<and> (\<exists>item sub.
        main [script, str ''''] (Inr (str ''work|3|1700000000|1|1700003600'')) clk
          = [items_document [item]]
        \<and> at_path [''title''] item = Some (JString (str ''work''))
        \<and> at_path [''subtitle''] item = Some (JString sub)
        \<and> str_contains (str ''attached'') sub \<and> str_contains (str ''3 windows'') sub
        \<and> at_path [''arg''] item = Some (JString (str ''work''))
        \<and> at_path [''mods'', ''cmd'', ''arg''] item = Some (JString (str ''delete:work''))
        \<and> at_path [''mods'', ''ctrl'', ''valid''] item = Some (JBool True)
        \<and> at_path [''mods'', ''ctrl'', ''arg''] item = Some (JString (str ''detach:work'')))"
proof -
  let ?work = "\<lparr>name = str ''work'', windows = 3, created_timestamp = 1700000000,
                 is_attached = True, activity_timestamp = 1700003600\<rparr>"
  let ?out = "str ''work|3|1700000000|1|1700003600''"
  have general:
    "at_path [''title''] (to_alfred_item clk s) = Some (JString (name s))"
    "at_path [''arg''] (to_alfred_item clk s) = Some (JString (name s))"
    "at_path [''mods'', ''cmd'', ''arg''] (to_alfred_item clk s)
       = Some (JString (str ''delete:'' @ name s))"
    "\<exists>cmd. at_path [''mods'', ''cmd''] (to_alfred_item clk s) = Some cmd \<and> is_enabled cmd"
    "at_path [''mods'', ''ctrl'', ''arg''] (to_alfred_item clk s)
       = Some (JString (str ''detach:'' @ name s))"
    "at_path [''mods'', ''ctrl'', ''valid''] (to_alfred_item clk s) = Some (JBool (is_attached s))"
    by (simp_all add: to_alfred_item_def is_enabled_def)
  have strip: "str_strip ?out = ?out"
    by code_simp
  have nonempty: "?out \<noteq> []"
    by (simp add: str_def)
  have lines: "str_split 0x0A ?out = [?out]"
    by code_simp
  have parse: "parse_session_line ?out = Some ?work"
    by code_simp
  have sessions: "get_tmux_sessions (Inr ?out) = Inr [?work]"
    by (simp add: get_tmux_sessions_def strip lines parse nonempty)
  have query: "read_query [script, str ''''] = []"
    by (simp add: read_query_def str_strip_def str_def)
  have run: "main [script, str ''''] (Inr ?out) clk = [items_document [to_alfred_item clk ?work]]"
    by (simp add: main_def sessions query filter_and_sort_sessions_def matches_def)
  have three: "str_int 3 = str ''3''" by code_simp
  have sub1: "subtitle clk ?work
      = ([0x1F7E2] @ str '' '') @ str ''attached''
          @ (str '' '' @ bullet @ str '' 3 windows '' @ bullet @ str '' created ''
              @ created_ago clk ?work @ str '' '' @ bullet @ str '' active ''
              @ activity_ago clk ?work)"
    by (simp add: subtitle_def status_emoji_def three str_def)
  have sub2: "subtitle clk ?work
      = ([0x1F7E2] @ str '' attached '' @ bullet @ str '' '') @ str ''3 windows''
          @ (str '' '' @ bullet @ str '' created '' @ created_ago clk ?work
              @ str '' '' @ bullet @ str '' active '' @ activity_ago clk ?work)"
    by (simp add: subtitle_def status_emoji_def three str_def)
  have c1: "str_contains (str ''attached'') (subtitle clk ?work)"
    unfolding sub1 by (rule str_contains_middle)
  have c2: "str_contains (str ''3 windows'') (subtitle clk ?work)"
    unfolding sub2 by (rule str_contains_middle)
  have fields:
    "at_path [''title''] (to_alfred_item clk ?work) = Some (JString (str ''work''))"
    "at_path [''subtitle''] (to_alfred_item clk ?work) = Some (JString (subtitle clk ?work))"
    "at_path [''arg''] (to_alfred_item clk ?work) = Some (JString (str ''work''))"
    "at_path [''mods'', ''cmd'', ''arg''] (to_alfred_item clk ?work)
       = Some (JString (str ''delete:work''))"
    "at_path [''mods'', ''ctrl'', ''valid''] (to_alfred_item clk ?work) = Some (JBool True)"
    "at_path [''mods'', ''ctrl'', ''arg''] (to_alfred_item clk ?work)
       = Some (JString (str ''detach:work''))"
    by (simp_all add: to_alfred_item_def str_def)
  from run c1 c2 fields have scenario: "\<exists>item sub.
        main [script, str ''''] (Inr ?out) clk = [items_document [item]]
        \<and> at_path [''title''] item = Some (JString (str ''work''))
        \<and> at_path [''subtitle''] item = Some (JString sub)
        \<and> str_contains (str ''attached'') sub \<and> str_contains (str ''3 windows'') sub
        \<and> at_path [''arg''] item = Some (JString (str ''work''))
        \<and> at_path [''mods'', ''cmd'', ''arg''] item = Some (JString (str ''delete:work''))
        \<and> at_path [''mods'', ''ctrl'', ''valid''] item = Some (JBool True)
        \<and> at_path [''mods'', ''ctrl'', ''arg''] item = Some (JString (str ''detach:work''))"
    by blast
  from general scenario show ?thesis by blast
qed

section \<open>Listing the sessions\<close>

lemma parse_lines_map_filter: "parse_lines ls = List.map_filter parse_session_line ls"
  by (induction ls) (auto simp: List.map_filter_simps split: option.splits)

lemma parse_empty_line: "parse_session_line [] = None"
  by (simp add: parse_session_line_def)

text \<open>
  C4 as the claim states it fails: a failure of the call that is none of the three the
  function names, such as a PermissionError, is not caught. It reaches the caller although
  the executable is not absent, and \<open>main\<close> has the handler for it.
\<close>

theorem get_tmux_sessions_other_failure:
  "get_tmux_sessions (Inl \<lparr>kind = OtherException, message = str ''Permission denied''\<rparr>)
     = Inl \<lparr>kind = OtherException, message = str ''Permission denied''\<rparr>
   \<and> kind \<lparr>kind = OtherException, message = str ''Permission denied''\<rparr> \<noteq> FileNotFoundError"
  by (simp add: get_tmux_sessions_def)

text \<open>
  C4, amended. \<open>get_tmux_sessions\<close> raises exactly when the call of the command raises
  something other than the failures for an exit status that is not zero and for a timeout:
  the missing executable, or any unexpected failure, passed on unchanged. An exit status
  that is not zero and a timeout each give the empty list. Otherwise the result holds one
  session for each line of the stripped output that parses to a session, in the order
  of the lines.
\<close>

theorem get_tmux_sessions_outcomes:
  "((\<exists>e. get_tmux_sessions run = Inl e) \<longleftrightarrow>
      (\<exists>e. run = Inl e \<and> kind e \<noteq> CalledProcessError \<and> kind e \<noteq> TimeoutExpired))
   \<and> (\<forall>e. run = Inl e \<and> kind e \<noteq> CalledProcessError \<and> kind e \<noteq> TimeoutExpired \<longrightarrow>
         get_tmux_sessions run = Inl e)
   \<and> (\<forall>e. run = Inl e \<and> (kind e = CalledProcessError \<or> kind e = TimeoutExpired) \<longrightarrow>
         get_tmux_sessions run = Inr [])
   \<and> (\<forall>stdout. run = Inr stdout \<longrightarrow>
         get_tmux_sessions run =
           Inr (List.map_filter parse_session_line (str_split 0x0A (str_strip stdout))))"
  by (cases run)
    (auto simp: get_tmux_sessions_def parse_lines_map_filter List.map_filter_simps
       parse_empty_line)

theorem get_tmux_sessions_outcomes_witness:
  "get_tmux_sessions
     (Inl \<lparr>kind = FileNotFoundError, message = str ''No such file or directory''\<rparr>)
     = Inl \<lparr>kind = FileNotFoundError, message = str ''No such file or directory''\<rparr>
   \<and> get_tmux_sessions (Inl \<lparr>kind = CalledProcessError, message = str ''exit status 1''\<rparr>)
     = Inr []
   \<and> get_tmux_sessions (Inl \<lparr>kind = TimeoutExpired, message = str ''timed out''\<rparr>) = Inr []
   \<and> get_tmux_sessions
       (Inr (str ''a|1|2|1|3'' @ [0x0A] @ str ''bad'' @ [0x0A] @ str ''b|2|3|0|4'' @ [0x0A]))
     = Inr [\<lparr>name = str ''a'', windows = 1, created_timestamp = 2, is_attached = True,
               activity_timestamp = 3\<rparr>,
            \<lparr>name = str ''b'', windows = 2, created_timestamp = 3, is_attached = False,
               activity_timestamp = 4\<rparr>]"
proof -
  let ?out = "str ''a|1|2|1|3'' @ [0x0A] @ str ''bad'' @ [0x0A] @ str ''b|2|3|0|4'' @ [0x0A]"
  have ev: "List.map_filter parse_session_line (str_split 0x0A (str_strip ?out))
     = [\<lparr>name = str ''a'', windows = 1, created_timestamp = 2, is_attached = True,
               activity_timestamp = 3\<rparr>,
        \<lparr>name = str ''b'', windows = 2, created_timestamp = 3, is_attached = False,
               activity_timestamp = 4\<rparr>]"
    by code_simp
  show ?thesis
    using get_tmux_sessions_outcomes
        [of "Inl \<lparr>kind = FileNotFoundError, message = str ''No such file or directory''\<rparr>"]
      get_tmux_sessions_outcomes
        [of "Inl \<lparr>kind = CalledProcessError, message = str ''exit status 1''\<rparr>"]
      get_tmux_sessions_outcomes [of "Inl \<lparr>kind = TimeoutExpired, message = str ''timed out''\<rparr>"]
      get_tmux_sessions_outcomes [of "Inr ?out"] ev
    by simp
qed

section \<open>Filtering and ranking\<close>






section \<open>What the entry point prints\<close>

text \<open>
  C9. When the sessions are listed and none of them passes the filter, the program prints
  one document with one item, which the query decides: the empty query gives the item
  titled \<open>No tmux sessions found\<close>, which is not actionable; a valid name gives the
  item that offers to create the session, with the argument \<open>create:\<close> and the query;
  any other query gives the item that reports the invalid name, which is not actionable.
\<close>

theorem main_no_match:
  assumes "get_tmux_sessions run = Inr sessions"
    and "filter_and_sort_sessions sessions (read_query argv) = []"
  shows "main argv run clk =
    [items_document
       [if read_query argv = [] then
          JObject [(''title'', JString (str ''No tmux sessions found'')),
                   (''subtitle'', JString (str ''Start typing to create a new session'')),
                   (''valid'', JBool False)]
        else if is_valid_session_name (read_query argv) then
          JObject [(''title'',
                      JString (str ''Create new session \"'' @ read_query argv @ str ''\"'')),
                   (''subtitle'', JString (str ''Press Enter to create this tmux session'')),
                   (''arg'', JString (str ''create:'' @ read_query argv)),
                   (''icon'', JObject [(''path'', JString (str ''icon.png''))])]
        else
          JObject [(''title'',
                      JString (str ''Invalid session name \"'' @ read_query argv @ str ''\"'')),
                   (''subtitle'',
                      JString (str ''Session names cannot contain spaces, dots, or colons'')),
                   (''valid'', JBool False)]]]"
  using assms
  by (simp add: main_def Let_def create_session_prompt_def create_empty_state_prompt_def)

theorem main_no_match_witness:
  "main [str ''tmux-sessions.py'', str ''newproj''] (Inr []) (utc 0) =
     [items_document
        [JObject [(''title'', JString (str ''Create new session \"newproj\"'')),
                  (''subtitle'', JString (str ''Press Enter to create this tmux session'')),
                  (''arg'', JString (str ''create:newproj'')),
                  (''icon'', JObject [(''path'', JString (str ''icon.png''))])]]]
   \<and> main [str ''tmux-sessions.py'', str ''My Project''] (Inr []) (utc 0) =
     [items_document
        [JObject [(''title'', JString (str ''Invalid session name \"My Project\"'')),
                  (''subtitle'',
                     JString (str ''Session names cannot contain spaces, dots, or colons'')),
                  (''valid'', JBool False)]]]
   \<and> main [str ''tmux-sessions.py''] (Inr []) (utc 0) =
     [items_document
        [JObject [(''title'', JString (str ''No tmux sessions found'')),
                  (''subtitle'', JString (str ''Start typing to create a new session'')),
                  (''valid'', JBool False)]]]"
proof -
  have src: "get_tmux_sessions (Inr []) = Inr []"
    by (simp add: get_tmux_sessions_def str_strip_def)
  have none: "filter_and_sort_sessions [] q = []" for q
    by (simp add: filter_and_sort_sessions_def)
  have q1: "read_query [str ''tmux-sessions.py'', str ''newproj''] = str ''newproj''"
    by code_simp
  have q2: "read_query [str ''tmux-sessions.py'', str ''My Project''] = str ''My Project''"
    by code_simp
  have q3: "read_query [str ''tmux-sessions.py''] = []" by code_simp
  have v1: "is_valid_session_name (str ''newproj'')" by code_simp
  have v2: "\<not> is_valid_session_name (str ''My Project'')" by code_simp
  have n1: "str ''newproj'' \<noteq> []" "str ''My Project'' \<noteq> []" by (simp_all add: str_def)
  show ?thesis
    using main_no_match [OF src none, of "[str ''tmux-sessions.py'', str ''newproj'']" "utc 0"]
      main_no_match [OF src none, of "[str ''tmux-sessions.py'', str ''My Project'']" "utc 0"]
      main_no_match [OF src none, of "[str ''tmux-sessions.py'']" "utc 0"]
    by (simp add: q1 q2 q3 v1 v2 n1 str_append)
qed

text \<open>
  C3. Every call of \<open>main\<close> prints exactly one document, and it is an items document.
  When listing the sessions raises the failure of the missing executable, the document has
  the single item that tells to install tmux, which is not actionable; when it raises
  anything else, the document has the single item titled \<open>Unexpected error\<close> with the
  description of the failure as its subtitle, which is not actionable. \<open>main\<close> is total:
  no failure of the session source leaves it without a document.
\<close>

theorem main_always_one_document:
  "length (main argv run clk) = 1
   \<and> list_all is_items_document (main argv run clk)
   \<and> (\<forall>e. get_tmux_sessions run = Inl e \<and> kind e = FileNotFoundError \<longrightarrow>
         main argv run clk =
           [items_document
              [JObject [(''title'', JString (str ''tmux not found'')),
                        (''subtitle'', JString (str ''Install tmux: brew install tmux'')),
                        (''valid'', JBool False)]]])
   \<and> (\<forall>e. get_tmux_sessions run = Inl e \<and> kind e \<noteq> FileNotFoundError \<longrightarrow>
         main argv run clk =
           [items_document
              [JObject [(''title'', JString (str ''Unexpected error'')),
                        (''subtitle'', JString (message e)),
                        (''valid'', JBool False)]]])"
proof -
  have one: "length (main argv run clk) = 1"
    by (simp add: main_def Let_def split: sum.splits)
  have doc: "list_all is_items_document (main argv run clk)"
    by (auto simp: main_def Let_def is_items_document_items list_all_iff
        optional_string_def optional_bool_def
        is_item_to_alfred_item is_item_create_session_prompt is_item_create_empty_state_prompt
        split: sum.splits)
  have missing: "\<forall>e. get_tmux_sessions run = Inl e \<and> kind e = FileNotFoundError \<longrightarrow>
         main argv run clk =
           [items_document
              [JObject [(''title'', JString (str ''tmux not found'')),
                        (''subtitle'', JString (str ''Install tmux: brew install tmux'')),
                        (''valid'', JBool False)]]]"
    by (simp add: main_def)
  have other: "\<forall>e. get_tmux_sessions run = Inl e \<and> kind e \<noteq> FileNotFoundError \<longrightarrow>
         main argv run clk =
           [items_document
              [JObject [(''title'', JString (str ''Unexpected error'')),
                        (''subtitle'', JString (message e)),
                        (''valid'', JBool False)]]]"
    by (simp add: main_def)
  from one doc missing other show ?thesis by blast
qed

theorem main_always_one_document_witness:
  "get_tmux_sessions
     (Inl \<lparr>kind = FileNotFoundError, message = str ''No such file or directory''\<rparr>)
     = Inl \<lparr>kind = FileNotFoundError, message = str ''No such file or directory''\<rparr>
   \<and> main [str ''tmux-sessions.py'']
        (Inl \<lparr>kind = FileNotFoundError, message = str ''No such file or directory''\<rparr>)
        (utc 0) =
       [items_document
          [JObject [(''title'', JString (str ''tmux not found'')),
                    (''subtitle'', JString (str ''Install tmux: brew install tmux'')),
                    (''valid'', JBool False)]]]
   \<and> get_tmux_sessions (Inl \<lparr>kind = OtherException, message = str ''Permission denied''\<rparr>)
     = Inl \<lparr>kind = OtherException, message = str ''Permission denied''\<rparr>
   \<and> main [str ''tmux-sessions.py'']
        (Inl \<lparr>kind = OtherException, message = str ''Permission denied''\<rparr>) (utc 0) =
       [items_document
          [JObject [(''title'', JString (str ''Unexpected error'')),
                    (''subtitle'', JString (str ''Permission denied'')),
                    (''valid'', JBool False)]]]"
proof -
  let ?missing = "\<lparr>kind = FileNotFoundError, message = str ''No such file or directory''\<rparr>"
  let ?other = "\<lparr>kind = OtherException, message = str ''Permission denied''\<rparr>"
  have a: "get_tmux_sessions (Inl ?missing) = Inl ?missing"
    by (simp add: get_tmux_sessions_def)
  have b: "get_tmux_sessions (Inl ?other) = Inl ?other"
    by (simp add: get_tmux_sessions_def)
  show ?thesis
    using a b main_always_one_document [of "[str ''tmux-sessions.py'']" "Inl ?missing" "utc 0"]
      main_always_one_document [of "[str ''tmux-sessions.py'']" "Inl ?other" "utc 0"]
    by simp
qed

end
